theory Spec2Isabelle
  imports Main "HOL-Library.Sublist"
begin

section \<open>Python string operations\<close>

text \<open>
  The todo manager works on Python \<open>str\<close> values.  A string is a list of characters, and
  the operations below are the ones \<open>app/llm_processor.py\<close> and \<open>app/main.py\<close> call,
  with the meaning they have on ASCII text: the character classes \<open>\s\<close>, \<open>\d\<close> and
  \<open>\w\<close> of \<open>re\<close>, and \<open>str.lower\<close>, \<open>str.upper\<close>, are those of the ASCII range.
\<close>

definition isspace :: "char \<Rightarrow> bool" where
  \<comment> \<open>\<open>str.isspace\<close> and the class \<open>\s\<close>: tab to carriage return, the four separators
      FS, GS, RS, US, and the blank\<close>
  "isspace c = (let n = (of_char c :: nat) in (9 \<le> n \<and> n \<le> 13) \<or> (28 \<le> n \<and> n \<le> 32))"

definition isdigit :: "char \<Rightarrow> bool" where
  \<comment> \<open>the class \<open>\d\<close>\<close>
  "isdigit c = (let n = (of_char c :: nat) in 48 \<le> n \<and> n \<le> 57)"

definition isword :: "char \<Rightarrow> bool" where
  \<comment> \<open>the class \<open>\w\<close>: letters, digits and the underscore\<close>
  "isword c = (let n = (of_char c :: nat) in
     (48 \<le> n \<and> n \<le> 57) \<or> (65 \<le> n \<and> n \<le> 90) \<or> n = 95 \<or> (97 \<le> n \<and> n \<le> 122))"

definition upper_letters :: string where
  "upper_letters = ''ABCDEFGHIJKLMNOPQRSTUVWXYZ''"

definition lower_letters :: string where
  "lower_letters = ''abcdefghijklmnopqrstuvwxyz''"

definition lower_char :: "char \<Rightarrow> char" where
  "lower_char c = (case map_of (zip upper_letters lower_letters) c of Some d \<Rightarrow> d | None \<Rightarrow> c)"

definition upper_char :: "char \<Rightarrow> char" where
  "upper_char c = (case map_of (zip lower_letters upper_letters) c of Some d \<Rightarrow> d | None \<Rightarrow> c)"

definition lower :: "string \<Rightarrow> string" where
  \<comment> \<open>\<open>s.lower()\<close>\<close>
  "lower s = map lower_char s"

definition capitalize :: "string \<Rightarrow> string" where
  \<comment> \<open>\<open>s.capitalize()\<close>: the first character in upper case, the others in lower case\<close>
  "capitalize s = (case s of [] \<Rightarrow> [] | c # cs \<Rightarrow> upper_char c # lower cs)"

definition strip :: "string \<Rightarrow> string" where
  \<comment> \<open>\<open>s.strip()\<close>\<close>
  "strip s = rev (dropWhile isspace (rev (dropWhile isspace s)))"

fun split_aux :: "string \<Rightarrow> string \<Rightarrow> string list" where
  "split_aux cur [] = (if cur = [] then [] else [cur])"
| "split_aux cur (c # cs) =
     (if isspace c then (if cur = [] then split_aux [] cs else cur # split_aux [] cs)
      else split_aux (cur @ [c]) cs)"

definition split :: "string \<Rightarrow> string list" where
  \<comment> \<open>\<open>s.split()\<close>: the maximal runs of characters that are not white space\<close>
  "split s = split_aux [] s"

fun split_on_aux :: "char \<Rightarrow> string \<Rightarrow> string \<Rightarrow> string list" where
  "split_on_aux sep cur [] = [cur]"
| "split_on_aux sep cur (c # cs) =
     (if c = sep then cur # split_on_aux sep [] cs else split_on_aux sep (cur @ [c]) cs)"

definition split_on :: "char \<Rightarrow> string \<Rightarrow> string list" where
  \<comment> \<open>\<open>s.split(sep)\<close> for a separator of one character: empty pieces are kept\<close>
  "split_on sep s = split_on_aux sep [] s"

fun join :: "string \<Rightarrow> string list \<Rightarrow> string" where
  \<comment> \<open>\<open>sep.join(xs)\<close>\<close>
  "join sep [] = []"
| "join sep [x] = x"
| "join sep (x # y # ys) = x @ sep @ join sep (y # ys)"

fun contains :: "string \<Rightarrow> string \<Rightarrow> bool" where
  \<comment> \<open>\<open>sub in s\<close>\<close>
  "contains sub [] = (sub = [])"
| "contains sub (c # cs) = (prefix sub (c # cs) \<or> contains sub cs)"

fun replace_aux :: "string \<Rightarrow> nat \<Rightarrow> string \<Rightarrow> string" where
  \<comment> \<open>the counter is the number of characters of the current occurrence still to drop\<close>
  "replace_aux w k [] = []"
| "replace_aux w k (c # cs) =
     (if 0 < k then replace_aux w (k - 1) cs
      else if w \<noteq> [] \<and> prefix w (c # cs) then replace_aux w (length w - 1) cs
      else c # replace_aux w 0 cs)"

definition remove_all :: "string \<Rightarrow> string \<Rightarrow> string" where
  \<comment> \<open>\<open>s.replace(w, "")\<close>: the occurrences of \<open>w\<close>, found from the left without overlap,
      are deleted\<close>
  "remove_all w s = replace_aux w 0 s"

subsection \<open>The regular expressions of the analyzer\<close>

definition next_isword :: "string \<Rightarrow> bool" where
  "next_isword s = (case s of [] \<Rightarrow> False | c # _ \<Rightarrow> isword c)"

fun sub_word_aux :: "string \<Rightarrow> bool \<Rightarrow> nat \<Rightarrow> string \<Rightarrow> string" where
  \<comment> \<open>\<open>prev\<close>: the character before the position is a word character; the counter is
      the number of characters of the current match still to drop\<close>
  "sub_word_aux w prev k [] = []"
| "sub_word_aux w prev k (c # cs) =
     (if 0 < k then sub_word_aux w (isword c) (k - 1) cs
      else if w \<noteq> [] \<and> prev \<noteq> isword c \<and> prefix w (c # cs)
              \<and> isword (last w) \<noteq> next_isword (drop (length w) (c # cs))
        then sub_word_aux w (isword c) (length w - 1) cs
      else c # sub_word_aux w (isword c) 0 cs)"

definition sub_word :: "string \<Rightarrow> string \<Rightarrow> string" where
  \<comment> \<open>\<open>re.sub(r'\b' + w + r'\b', '', text)\<close> for a literal word \<open>w\<close>: every occurrence of
      \<open>w\<close> that stands between two word boundaries is deleted\<close>
  "sub_word w text = sub_word_aux w False 0 text"

fun collapse_aux :: "bool \<Rightarrow> string \<Rightarrow> string" where
  \<comment> \<open>the flag: the previous character was white space\<close>
  "collapse_aux ws [] = []"
| "collapse_aux ws (c # cs) =
     (if isspace c then (if ws then collapse_aux True cs else CHR '' '' # collapse_aux True cs)
      else c # collapse_aux False cs)"

definition collapse_spaces :: "string \<Rightarrow> string" where
  \<comment> \<open>\<open>re.sub(r'\s+', ' ', text)\<close>\<close>
  "collapse_spaces text = collapse_aux False text"

definition strip_nonword :: "string \<Rightarrow> string" where
  \<comment> \<open>\<open>re.sub(r'^\W+|\W+$', '', text)\<close> on a text without line breaks: the leading and the
      trailing run of characters outside \<open>\w\<close> are deleted\<close>
  "strip_nonword text =
     rev (dropWhile (\<lambda>c. \<not> isword c) (rev (dropWhile (\<lambda>c. \<not> isword c) text)))"

definition match_hours_here :: "string \<Rightarrow> string option" where
  \<comment> \<open>the pattern \<open>(\d+)\s*(hr|hour|hrs|hours)\<close> anchored at the head of the text; the
      result is group 1.  Both runs are greedy, and a shorter run never matches: after
      fewer digits comes a digit, after fewer blanks a blank.  Every alternative begins
      with \<open>hr\<close> or \<open>hour\<close>.\<close>
  "match_hours_here s =
     (let ds = takeWhile isdigit s; rest = dropWhile isspace (dropWhile isdigit s)
      in if ds \<noteq> [] \<and> (prefix ''hr'' rest \<or> prefix ''hour'' rest) then Some ds else None)"

fun search_hours :: "string \<Rightarrow> string option" where
  \<comment> \<open>\<open>re.search(r'(\d+)\s*(hr|hour|hrs|hours)', s)\<close>: the leftmost match, as group 1\<close>
  "search_hours [] = None"
| "search_hours (c # cs) =
     (case match_hours_here (c # cs) of Some ds \<Rightarrow> Some ds | None \<Rightarrow> search_hours cs)"

definition digit_val :: "char \<Rightarrow> nat" where
  "digit_val c = of_char c - 48"

definition int_max_str_digits :: nat where
  \<comment> \<open>the default of \<open>sys.int_max_str_digits\<close> (CPython 3.11 and later): the longest
      decimal numeral that \<open>int\<close> converts\<close>
  "int_max_str_digits = 4300"

definition decimal :: "string \<Rightarrow> nat" where
  \<comment> \<open>the number that a run of digits writes\<close>
  "decimal ds = foldl (\<lambda>n c. 10 * n + digit_val c) 0 ds"

definition py_int :: "string \<Rightarrow> nat option" where
  \<comment> \<open>\<open>int(s)\<close>; \<open>None\<close> is \<open>ValueError\<close>, raised when \<open>s\<close> is not a run of digits or is
      longer than the limit\<close>
  "py_int ds =
     (if ds = [] \<or> \<not> list_all isdigit ds \<or> int_max_str_digits < length ds then None
      else Some (decimal ds))"

fun py_str :: "nat \<Rightarrow> string" where
  \<comment> \<open>\<open>str(n)\<close> of a natural number\<close>
  "py_str n = (if n < 10 then [''0123456789'' ! n] else py_str (n div 10) @ [''0123456789'' ! (n mod 10)])"

declare py_str.simps [simp del]

section \<open>The data model\<close>

text \<open>
  A JSON object of the oracle is a Python \<open>dict\<close>; the code reads it with \<open>d[k]\<close>,
  which raises \<open>KeyError\<close> on a missing key, and with \<open>d.get(k, default)\<close>, which tells
  a missing key from a key bound to \<open>null\<close>.  A field read in the second way has the three
  cases of \<open>jfield\<close>; a field for which the code treats a missing key and \<open>null\<close> alike
  is an \<open>option\<close>.  Values are typed as the prompt's response format types them; a
  title, where the key is there, is a string.
\<close>

datatype 'a jfield = Absent | Null | Val 'a

record todo_dict =
  d_title :: "string option"          \<comment> \<open>\<open>None\<close>: no key \<open>title\<close>\<close>
  d_description :: "string jfield"
  d_due_date :: "string option"       \<comment> \<open>\<open>None\<close>: no key, or \<open>null\<close>\<close>
  d_priority :: "int jfield"
  d_category :: "string option"       \<comment> \<open>\<open>None\<close>: no key, or \<open>null\<close>\<close>

record todo_filters =
  f_completed :: "bool option"
  f_category :: "string option"
  f_priority :: "int option"
  f_due_date_before :: "string option"
  f_due_date_after :: "string option"

record todo_view =
  v_sort_by :: "string option"
  v_sort_order :: "string option"
  v_show_completed :: "bool option"

text \<open>
  The analysis is the \<open>dict\<close> that \<open>TodoAnalyzer.analyze_input\<close> returns.  The key
  \<open>todos\<close> is read with \<open>get("todos", [])\<close> only, so a missing key is the empty list; the
  same holds for \<open>filters\<close> and \<open>view_options\<close>, whose empty \<open>dict\<close> is the record of
  \<open>None\<close>s.  The key \<open>details\<close> of an error analysis, the text of the exception, has no
  reader and is left out.
\<close>

record analysis =
  action :: "string option"           \<comment> \<open>\<open>None\<close>: no key \<open>action\<close>\<close>
  ui_action :: "string option"
  todos :: "todo_dict list"
  todo_info :: "todo_dict option"
  filters :: todo_filters
  view_options :: todo_view
  error :: "string option"

definition no_filters :: todo_filters where
  "no_filters = \<lparr>f_completed = None, f_category = None, f_priority = None,
     f_due_date_before = None, f_due_date_after = None\<rparr>"

definition no_view :: todo_view where
  "no_view = \<lparr>v_sort_by = None, v_sort_order = None, v_show_completed = None\<rparr>"

text \<open>
  The rows of the table \<open>todos\<close> (\<open>models.Todo\<close>) and the current user (\<open>models.User\<close>).
  A \<open>datetime\<close> is a number of seconds since 0001-01-01 00:00:00.  The columns
  \<open>created_at\<close> and \<open>updated_at\<close>, which the ORM fills in, are not modelled; the
  priority is kept as the constructor receives it.
\<close>

record todo =
  todo_id :: nat
  title :: string
  description :: "string option"
  due_date :: "nat option"
  completed :: bool
  priority :: "int option"
  category_id :: "nat option"
  user_id :: nat

record user =
  u_id :: nat
  is_admin :: bool

text \<open>
  The clock and the conversions between \<open>datetime\<close> and text belong to Python's
  library; they are parameters of the model.
\<close>

record env =
  now :: nat                                  \<comment> \<open>\<open>datetime.now()\<close>\<close>
  strftime :: "nat \<Rightarrow> string"                \<comment> \<open>\<open>dt.strftime("%Y-%m-%d %H:%M:%S")\<close>\<close>
  strptime :: "string \<Rightarrow> nat option"         \<comment> \<open>\<open>datetime.strptime(s, "%Y-%m-%d %H:%M:%S")\<close>;
                                                  \<open>None\<close> is \<open>ValueError\<close>\<close>
  fromisoformat :: "string \<Rightarrow> nat option"    \<comment> \<open>\<open>datetime.fromisoformat(s)\<close>\<close>

definition datetime_max :: nat where
  \<comment> \<open>9999-12-31 23:59:59, the last second of \<open>datetime.max\<close>: day 3652059 of the
      calendar\<close>
  "datetime_max = 3652059 * 86400 - 1"

datatype py_error = IndexError | KeyError | ValueError | AttributeError | OverflowError
  | StatementError

section \<open>The intent extractor: \<open>TodoAnalyzer.analyze_input\<close>\<close>

datatype oracle_outcome =
    Oracle_Raises                \<comment> \<open>the call to the completion service raises\<close>
  | Oracle_Invalid_JSON          \<comment> \<open>\<open>json.loads\<close> raises \<open>JSONDecodeError\<close> on the text\<close>
  | Oracle_JSON analysis         \<comment> \<open>the text is a JSON object, parsed\<close>

definition error_analysis :: "string \<Rightarrow> analysis" where
  "error_analysis msg = \<lparr>action = Some ''error'', ui_action = None, todos = [],
     todo_info = None, filters = no_filters, view_options = no_view, error = Some msg\<rparr>"

definition title_case :: "string \<Rightarrow> string" where
  \<comment> \<open>line 224: every word capitalized, the words joined by one blank\<close>
  "title_case s = join '' '' (map capitalize (split s))"

definition build_todo :: "env \<Rightarrow> todo_dict \<Rightarrow> string \<Rightarrow> py_error + todo_dict" where
  \<comment> \<open>the body of the loop over \<open>todo_items\<close> (lines 218 to 250)\<close>
  "build_todo e todo_data item =
     (let title0 = (case d_title todo_data of None \<Rightarrow> strip item | Some t \<Rightarrow> t);
          ttl = title_case title0;
          descr = (case d_description todo_data of Absent \<Rightarrow> Val ttl | x \<Rightarrow> x);
          category = d_category todo_data;
          prio = (case d_priority todo_data of Absent \<Rightarrow> Val 1 | x \<Rightarrow> x);
          td = \<lparr>d_title = Some ttl, d_description = descr, d_due_date = d_due_date todo_data,
                 d_priority = prio, d_category = category\<rparr>
      in case search_hours (lower item) of
           None \<Rightarrow> Inr td
         | Some ds \<Rightarrow>
             (case py_int ds of
                None \<Rightarrow> Inr td
              | Some hours \<Rightarrow>
                  if datetime_max < now e + hours * 3600 then Inl OverflowError
                  else Inr (td\<lparr>d_due_date := Some (strftime e (now e + hours * 3600)),
                              d_description :=
                                Val (capitalize ttl @ '' (Due in '' @ py_str hours @ '' hours)'')\<rparr>)))"

fun build_todos :: "env \<Rightarrow> todo_dict list \<Rightarrow> string list \<Rightarrow> py_error + todo_dict list" where
  \<comment> \<open>the loop; \<open>parsed.get("todos", [{}])[0]\<close> is read in every round, and the key
      \<open>todos\<close> is always there (line 206), so the empty list raises \<open>IndexError\<close>\<close>
  "build_todos e parsed_todos [] = Inr []"
| "build_todos e parsed_todos (item # items) =
     (case parsed_todos of
        [] \<Rightarrow> Inl IndexError
      | todo_data # _ \<Rightarrow>
          (case build_todo e todo_data item of
             Inl x \<Rightarrow> Inl x
           | Inr td \<Rightarrow>
               (case build_todos e parsed_todos items of
                  Inl x \<Rightarrow> Inl x
                | Inr tds \<Rightarrow> Inr (td # tds))))"

definition todo_items :: "string \<Rightarrow> string list" where
  "todo_items user_input =
     (if CHR '','' \<in> set user_input then map strip (split_on (CHR '','') user_input)
      else [user_input])"

definition action_words :: "string list" where
  "action_words = [''add'', ''create'', ''delete'', ''remove'', ''update'', ''change'',
     ''complete'', ''finish'', ''done'', ''need to'', ''have to'', ''must'',
     ''should'', ''want to'', ''going to'', ''task'', ''todo'']"

definition basic_cleanup :: "string \<Rightarrow> string" where
  "basic_cleanup text =
     strip_nonword (strip (collapse_spaces (foldl (\<lambda>t w. sub_word w t) (lower text) action_words)))"

definition fallback_action :: "string \<Rightarrow> string" where
  "fallback_action user_input =
     (if list_ex (\<lambda>w. contains w (lower user_input)) [''delete'', ''remove'', ''cancel'']
        then ''delete''
      else if list_ex (\<lambda>w. contains w (lower user_input)) [''done'', ''complete'', ''finished'']
        then ''mark_complete''
      else ''create'')"

definition fallback_title :: "string \<Rightarrow> string" where
  "fallback_title user_input = capitalize (strip (basic_cleanup (lower user_input)))"

definition fallback :: "string \<Rightarrow> analysis" where
  \<comment> \<open>the handler of \<open>JSONDecodeError\<close> (lines 257 to 307)\<close>
  "fallback user_input =
     (let task_name = fallback_title user_input; action_word = fallback_action user_input
      in if action_word \<noteq> [] \<and> task_name \<noteq> [] then
           \<lparr>action = Some action_word,
            ui_action = Some (if action_word = ''create'' then ''add_item'' else ''update_item''),
            todos = [\<lparr>d_title = Some task_name, d_description = Null, d_due_date = None,
                      d_priority = Val 1, d_category = None\<rparr>],
            todo_info = None, filters = no_filters, view_options = no_view, error = None\<rparr>
         else error_analysis ''Failed to understand the request. Please try again.'')"

definition analyze_input :: "env \<Rightarrow> string \<Rightarrow> oracle_outcome \<Rightarrow> analysis" where
  "analyze_input e user_input oracle =
     (case oracle of
        Oracle_Raises \<Rightarrow>
          error_analysis ''An error occurred while processing your request. Please try again.''
      | Oracle_Invalid_JSON \<Rightarrow> fallback user_input
      | Oracle_JSON parsed \<Rightarrow>
          if action parsed = Some ''create'' then
            (case build_todos e (todos parsed) (todo_items user_input) of
               Inl x \<Rightarrow>
                 error_analysis ''An error occurred while processing your request. Please try again.''
             | Inr tds \<Rightarrow>
                 parsed\<lparr>todos := tds,
                        ui_action := (case ui_action parsed of None \<Rightarrow> Some ''add_item''
                                      | Some u \<Rightarrow> Some u)\<rparr>)
          else parsed)"

section \<open>The task matcher: \<open>find_matching_todo\<close>\<close>

text \<open>
  The table is the list of its rows in the order the store returns them; \<open>first()\<close> and
  \<open>all()\<close> follow that order.  \<open>Todo.title.ilike(p)\<close> is SQL's \<open>lower(title) LIKE lower(p)\<close>:
  in the pattern, \<open>%\<close> stands for any run of characters and \<open>_\<close> for any one character, and
  no escape character is declared.
\<close>

fun like :: "string \<Rightarrow> string \<Rightarrow> bool" where
  \<comment> \<open>\<open>like p s\<close>: the text \<open>s\<close> matches the pattern \<open>p\<close>\<close>
  "like [] s = (s = [])"
| "like (p # ps) [] = (p = CHR ''%'' \<and> like ps [])"
| "like (p # ps) (c # cs) =
     (if p = CHR ''%'' then like ps (c # cs) \<or> like (p # ps) cs
      else (p = CHR ''_'' \<or> p = c) \<and> like ps cs)"

definition ilike :: "string \<Rightarrow> string \<Rightarrow> bool" where
  \<comment> \<open>\<open>column.ilike(pattern)\<close>\<close>
  "ilike s pattern = like (lower pattern) (lower s)"

definition find_matching_todo :: "todo list \<Rightarrow> string \<Rightarrow> nat \<Rightarrow> todo option" where
  "find_matching_todo db ttl uid =
     (case find (\<lambda>t. ilike (title t) (''%'' @ ttl @ ''%'') \<and> user_id t = uid) db of
        Some t \<Rightarrow> Some t
      | None \<Rightarrow>
          (let title_words = split (lower ttl);
               rows = filter (\<lambda>t. user_id t = uid) db
           in find (\<lambda>t. list_ex (\<lambda>word. contains word (lower (title t))) title_words) rows))"

section \<open>The mutation engine: \<open>process_input\<close>\<close>

text \<open>
  The answer of the endpoint is the \<open>dict\<close> with the keys \<open>todos\<close>, \<open>message\<close> and
  \<open>error\<close>; the rows it lists are given as they are in the table.  A request that does
  not return such a \<open>dict\<close> ends in an \<open>HTTPException\<close>, with its status and detail, or in
  an exception that no handler catches.
\<close>

record response =
  resp_todos :: "todo list"
  resp_message :: "string option"
  resp_error :: "string option"

datatype failure = HTTPException nat string | Uncaught py_error

definition get_filtered_todos ::
    "todo list \<Rightarrow> todo_filters \<Rightarrow> todo_view \<Rightarrow> user option \<Rightarrow> response" where
  \<comment> \<open>neither \<open>filters\<close> nor \<open>view_options\<close> is read: the function returns before the
      comment \<open># Apply filters\<close> that ends it\<close>
  "get_filtered_todos db flt view current_user =
     (case current_user of
        None \<Rightarrow> \<lparr>resp_todos = [], resp_message = Some ''Please log in to view todos'',
                  resp_error = None\<rparr>
      | Some u \<Rightarrow>
          \<lparr>resp_todos = (if \<not> is_admin u then filter (\<lambda>t. user_id t = u_id u) db else db),
           resp_message = None, resp_error = None\<rparr>)"

definition get_todos_response :: "todo list \<Rightarrow> string option \<Rightarrow> user option \<Rightarrow> response" where
  "get_todos_response db msg current_user =
     (let r = get_filtered_todos db no_filters no_view current_user
      in case msg of None \<Rightarrow> r
         | Some m \<Rightarrow> if m \<noteq> [] then r\<lparr>resp_message := Some m\<rparr> else r)"

definition error_response :: "string \<Rightarrow> response" where
  "error_response msg = \<lparr>resp_todos = [], resp_message = None, resp_error = Some msg\<rparr>"

subsection \<open>\<open>create\<close>\<close>

definition next_id :: "todo list \<Rightarrow> nat" where
  \<comment> \<open>the key the store gives the next row: one more than the largest key in use\<close>
  "next_id db = Suc (foldr max (map todo_id db) 0)"

definition todos_to_create :: "string \<Rightarrow> analysis \<Rightarrow> py_error + todo_dict list" where
  \<comment> \<open>lines 121 to 136; the \<open>dict\<close>s built from \<open>todo_info\<close> and from the input have no
      key \<open>category\<close>.  A \<open>todo_info\<close> without the key \<open>due_date\<close> is read as one
      that binds it to \<open>null\<close>.\<close>
  "todos_to_create user_input a =
     (if todos a \<noteq> [] then Inr (todos a)
      else case todo_info a of
        Some ti \<Rightarrow>
          (case d_title ti of
             None \<Rightarrow> Inl KeyError
           | Some ttl \<Rightarrow>
               if d_description ti = Absent \<or> d_priority ti = Absent then Inl KeyError
               else Inr [\<lparr>d_title = Some ttl, d_description = d_description ti,
                          d_due_date = d_due_date ti, d_priority = d_priority ti,
                          d_category = None\<rparr>])
      | None \<Rightarrow>
          Inr [\<lparr>d_title = Some user_input, d_description = Val user_input, d_due_date = None,
                 d_priority = Val 1, d_category = None\<rparr>])"

definition new_todo :: "env \<Rightarrow> nat \<Rightarrow> nat \<Rightarrow> todo_dict \<Rightarrow> py_error + todo" where
  \<comment> \<open>one round of the loop of lines 139 to 152: the row \<open>models.Todo(...)\<close> with the key
      \<open>k\<close>.  The constructor gets no category.\<close>
  "new_todo e uid k todo_info' =
     (case d_title todo_info' of
        None \<Rightarrow> Inl KeyError
      | Some ttl \<Rightarrow>
          (let row = \<lparr>todo_id = k, title = ttl,
                       description = (case d_description todo_info' of Val s \<Rightarrow> Some s | _ \<Rightarrow> None),
                       due_date = None, completed = False,
                       priority = (case d_priority todo_info' of Absent \<Rightarrow> Some 1
                                   | Null \<Rightarrow> None | Val n \<Rightarrow> Some n),
                       category_id = None, user_id = uid\<rparr>
           in case d_due_date todo_info' of
                None \<Rightarrow> Inr row
              | Some s \<Rightarrow>
                  if s = [] then Inr row
                  else (case strptime e s of
                          None \<Rightarrow> Inl ValueError
                        | Some dt \<Rightarrow> Inr (row\<lparr>due_date := Some dt\<rparr>))))"

fun new_todos :: "env \<Rightarrow> nat \<Rightarrow> nat \<Rightarrow> todo_dict list \<Rightarrow> py_error + todo list" where
  "new_todos e uid k [] = Inr []"
| "new_todos e uid k (d # ds) =
     (case new_todo e uid k d of
        Inl x \<Rightarrow> Inl x
      | Inr row \<Rightarrow>
          (case new_todos e uid (Suc k) ds of
             Inl x \<Rightarrow> Inl x
           | Inr rows \<Rightarrow> Inr (row # rows)))"

definition create_todos ::
    "env \<Rightarrow> string \<Rightarrow> user \<Rightarrow> analysis \<Rightarrow> todo list \<Rightarrow> (failure + response) \<times> todo list" where
  \<comment> \<open>lines 116 to 164: every exception is caught, the session rolled back and the
      failure reported in the answer\<close>
  "create_todos e user_input current_user a db =
     (case todos_to_create user_input a of
        Inl x \<Rightarrow> (Inr (error_response ''Failed to create todo. Please try again.''), db)
      | Inr ds \<Rightarrow>
          (case new_todos e (u_id current_user) (next_id db) ds of
             Inl x \<Rightarrow> (Inr (error_response ''Failed to create todo. Please try again.''), db)
           | Inr rows \<Rightarrow>
               (let db' = db @ rows; n = length ds
                in (Inr ((get_filtered_todos db' no_filters no_view (Some current_user))
                      \<lparr>resp_message := Some (''Created '' @ py_str n @ '' ''
                          @ (if n = 1 then ''todo'' else ''todos'') @ '' successfully'')\<rparr>),
                    db'))))"

subsection \<open>\<open>mark_complete\<close>, \<open>mark_incomplete\<close> and \<open>delete\<close>\<close>

definition completion_words :: "string list" where
  "completion_words = [''mark'', ''as'', ''complete'', ''completed'', ''incomplete'', ''done'',
     ''todo'', ''task'']"

definition deletion_words :: "string list" where
  "deletion_words = [''delete'', ''remove'', ''todo'', ''task'']"

definition resolve_title :: "string list \<Rightarrow> string \<Rightarrow> analysis \<Rightarrow> py_error + string" where
  \<comment> \<open>lines 169 to 182 and 248 to 261: the title to look for\<close>
  "resolve_title words_to_remove user_input a =
     (case todos a of
        [] \<Rightarrow>
          (case todo_info a of
             Some ti \<Rightarrow> (case d_title ti of None \<Rightarrow> Inl KeyError | Some ttl \<Rightarrow> Inr ttl)
           | None \<Rightarrow>
               Inr (capitalize (strip (foldl (\<lambda>s w. remove_all w s) (lower user_input)
                                         words_to_remove))))
      | d # _ \<Rightarrow> (case d_title d of None \<Rightarrow> Inl KeyError | Some ttl \<Rightarrow> Inr ttl))"

definition set_completed :: "bool \<Rightarrow> todo \<Rightarrow> todo list \<Rightarrow> todo list" where
  \<comment> \<open>\<open>todo.completed = b\<close> and \<open>db.commit()\<close>: the row with the key of \<open>todo\<close> is updated\<close>
  "set_completed b t db = map (\<lambda>r. if todo_id r = todo_id t then r\<lparr>completed := b\<rparr> else r) db"

definition mark_todo ::
    "string \<Rightarrow> user \<Rightarrow> analysis \<Rightarrow> string \<Rightarrow> todo list \<Rightarrow> (failure + response) \<times> todo list" where
  \<comment> \<open>lines 166 to 193; \<open>act\<close> is \<open>analysis["action"]\<close>\<close>
  "mark_todo user_input current_user a act db =
     (case resolve_title completion_words user_input a of
        Inl x \<Rightarrow> (Inl (Uncaught x), db)
      | Inr todo_title \<Rightarrow>
          (case find_matching_todo db todo_title (u_id current_user) of
             None \<Rightarrow> (Inl (HTTPException 404 (''Todo not found: '' @ todo_title)), db)
           | Some t \<Rightarrow>
               (let db' = set_completed (act = ''mark_complete'') t db
                in (Inr (get_todos_response db'
                           (Some (''Todo marked as '' @ remove_all ''mark_'' act))
                           (Some current_user)),
                    db'))))"

definition delete_todo ::
    "string \<Rightarrow> user \<Rightarrow> analysis \<Rightarrow> todo list \<Rightarrow> (failure + response) \<times> todo list" where
  \<comment> \<open>lines 245 to 272\<close>
  "delete_todo user_input current_user a db =
     (case resolve_title deletion_words user_input a of
        Inl x \<Rightarrow> (Inl (Uncaught x), db)
      | Inr todo_title \<Rightarrow>
          (case find_matching_todo db todo_title (u_id current_user) of
             None \<Rightarrow> (Inl (HTTPException 404 (''Todo not found: '' @ todo_title)), db)
           | Some t \<Rightarrow>
               (let db' = filter (\<lambda>r. todo_id r \<noteq> todo_id t) db
                in (Inr (get_todos_response db' (Some ''Todo deleted successfully'')
                           (Some current_user)),
                    db'))))"

subsection \<open>\<open>update\<close>\<close>

text \<open>
  The chain of \<open>elif\<close>s tests \<open>analysis["action"] == "update"\<close> twice.  The first
  branch (lines 195 to 210) patches the row whose title equals \<open>todo_info["title"]\<close>;
  it takes every \<open>update\<close>.  The loop over \<open>todo_info.items()\<close> is followed in the order
  of the response format.  A date that does not parse raises \<open>ValueError\<close>; a category
  that is not \<open>null\<close> is assigned to the relationship \<open>Todo.category\<close>, which accepts a
  \<open>Category\<close> only and raises \<open>AttributeError\<close>; an empty date is assigned as it is and
  refused by the column type when the session is flushed.  None of them is caught, and
  nothing is committed.
\<close>

definition todo_patch :: "env \<Rightarrow> todo_dict \<Rightarrow> py_error + (todo \<Rightarrow> todo)" where
  "todo_patch e ti =
     (let set_title = (\<lambda>r. case d_title ti of None \<Rightarrow> r | Some s \<Rightarrow> r\<lparr>title := s\<rparr>);
          set_description = (\<lambda>r. case d_description ti of Val s \<Rightarrow> r\<lparr>description := Some s\<rparr>
                                   | _ \<Rightarrow> r);
          set_priority = (\<lambda>r. case d_priority ti of Val n \<Rightarrow> r\<lparr>priority := Some n\<rparr> | _ \<Rightarrow> r)
      in case (case d_due_date ti of
                 None \<Rightarrow> Inr (\<lambda>r. r)
               | Some s \<Rightarrow>
                   if s = [] then Inr (\<lambda>r. r)
                   else (case fromisoformat e s of
                           None \<Rightarrow> Inl ValueError
                         | Some dt \<Rightarrow> Inr (\<lambda>r. r\<lparr>due_date := Some dt\<rparr>))) of
           Inl x \<Rightarrow> Inl x
         | Inr set_due_date \<Rightarrow>
             if d_category ti \<noteq> None then Inl AttributeError
             else if d_due_date ti = Some [] then Inl StatementError
             else Inr (\<lambda>r. set_priority (set_due_date (set_description (set_title r)))))"

definition update_todo ::
    "env \<Rightarrow> user \<Rightarrow> analysis \<Rightarrow> todo list \<Rightarrow> (failure + response) \<times> todo list" where
  \<comment> \<open>lines 195 to 210.  The query for the row has no condition on \<open>user_id\<close>.\<close>
  "update_todo e current_user a db =
     (case todo_info a of
        None \<Rightarrow> (Inl (Uncaught KeyError), db)
      | Some ti \<Rightarrow>
          (case d_title ti of
             None \<Rightarrow> (Inl (Uncaught KeyError), db)
           | Some ttl \<Rightarrow>
               (case find (\<lambda>t. title t = ttl) db of
                  None \<Rightarrow> (Inl (HTTPException 404 ''Todo not found''), db)
                | Some t \<Rightarrow>
                    (case todo_patch e ti of
                       Inl x \<Rightarrow> (Inl (Uncaught x), db)
                     | Inr patch \<Rightarrow>
                         (let db' = map (\<lambda>r. if todo_id r = todo_id t then patch r else r) db
                          in (Inr (get_todos_response db' (Some ''Todo updated successfully'')
                                     (Some current_user)),
                              db'))))))"

text \<open>
  The second branch (lines 212 to 238) renames a row.  No request reaches it, since the
  first branch has the same test; it is modelled on its own.
\<close>

definition rename_todo ::
    "user \<Rightarrow> analysis \<Rightarrow> todo list \<Rightarrow> (failure + response) \<times> todo list" where
  "rename_todo current_user a db =
     (case todos a of
        d0 # d1 # _ \<Rightarrow>
          (case (d_title d0, d_title d1) of
             (Some old_title, Some new_title) \<Rightarrow>
               (case find_matching_todo db old_title (u_id current_user) of
                  None \<Rightarrow> (Inl (HTTPException 404 (''Todo not found: '' @ old_title)), db)
                | Some t \<Rightarrow>
                    (case find (\<lambda>r. title r = new_title \<and> user_id r = u_id current_user
                                      \<and> todo_id r \<noteq> todo_id t) db of
                       Some existing \<Rightarrow>
                         (Inl (HTTPException 400 ''A todo with this title already exists''), db)
                     | None \<Rightarrow>
                         (let db' = map (\<lambda>r. if todo_id r = todo_id t then r\<lparr>title := new_title\<rparr>
                                              else r) db
                          in (Inr (get_todos_response db' (Some ''Todo updated successfully'')
                                     (Some current_user)),
                              db'))))
           | _ \<Rightarrow> (Inl (Uncaught KeyError), db))
      | _ \<Rightarrow> (Inl (HTTPException 400 ''Missing update information''), db))"

subsection \<open>The endpoint\<close>

definition default_action :: "string \<Rightarrow> analysis \<Rightarrow> analysis" where
  \<comment> \<open>lines 104 to 112: an analysis without the key \<open>action\<close> creates a task named by
      the input\<close>
  "default_action user_input a =
     (case action a of
        Some act \<Rightarrow> a
      | None \<Rightarrow>
          a\<lparr>action := Some ''create'',
            todo_info := Some \<lparr>d_title = Some user_input, d_description = Null,
                                d_due_date = None, d_priority = Val 1, d_category = None\<rparr>\<rparr>)"

definition apply_analysis ::
    "env \<Rightarrow> string \<Rightarrow> user \<Rightarrow> analysis \<Rightarrow> todo list \<Rightarrow> (failure + response) \<times> todo list" where
  \<comment> \<open>the body of \<open>process_input\<close> from line 98 on: the answer, or the failure, and the
      table after the request.  The analysis is never the empty \<open>dict\<close>.\<close>
  "apply_analysis e user_input current_user analysis0 db =
     (if action analysis0 = Some ''error'' then
        (Inr (error_response (case error analysis0 of None \<Rightarrow> ''Unknown error occurred''
                              | Some m \<Rightarrow> m)), db)
      else
        (let a = default_action user_input analysis0;
             act = (case action a of None \<Rightarrow> [] | Some s \<Rightarrow> s)
         in if act = ''create'' then create_todos e user_input current_user a db
            else if act = ''mark_complete'' \<or> act = ''mark_incomplete''
              then mark_todo user_input current_user a act db
            else if act = ''update'' then update_todo e current_user a db
            else if act = ''query'' \<or> act = ''list_all''
              then (Inr (get_filtered_todos db (filters a) (view_options a) (Some current_user)),
                    db)
            else if act = ''delete'' then delete_todo user_input current_user a db
            else (Inl (HTTPException 400 ''Invalid action''), db)))"

definition process_input ::
    "env \<Rightarrow> string \<Rightarrow> oracle_outcome \<Rightarrow> user \<Rightarrow> todo list \<Rightarrow> (failure + response) \<times> todo list" where
  "process_input e user_input oracle current_user db =
     apply_analysis e user_input current_user (analyze_input e user_input oracle) db"

section \<open>Predicates of the specification\<close>

definition title_matches :: "string \<Rightarrow> todo \<Rightarrow> bool" where
  \<comment> \<open>a row matches a title when one of the two tests of the matcher accepts it\<close>
  "title_matches ttl t =
     (ilike (title t) (''%'' @ ttl @ ''%'')
      \<or> list_ex (\<lambda>word. contains word (lower (title t))) (split (lower ttl)))"

definition due_in_range :: "env \<Rightarrow> string \<Rightarrow> bool" where
  \<comment> \<open>the duration that an item names, if any, ends no later than \<open>datetime.max\<close>\<close>
  "due_in_range e item =
     (case search_hours (lower item) of
        None \<Rightarrow> True
      | Some ds \<Rightarrow> (case py_int ds of None \<Rightarrow> True
                    | Some hours \<Rightarrow> now e + hours * 3600 \<le> datetime_max))"

section \<open>Sample data\<close>

definition sample_env :: env where
  \<comment> \<open>a clock in the year 2025; dates are written as their number of seconds\<close>
  "sample_env = \<lparr>now = 63900000000, strftime = py_str, strptime = py_int,
     fromisoformat = py_int\<rparr>"

definition alice :: user where
  "alice = \<lparr>u_id = 1, is_admin = False\<rparr>"

definition task :: "nat \<Rightarrow> string \<Rightarrow> nat \<Rightarrow> todo" where
  "task k ttl uid = \<lparr>todo_id = k, title = ttl, description = None, due_date = None,
     completed = False, priority = Some 1, category_id = None, user_id = uid\<rparr>"

definition draft :: "string \<Rightarrow> todo_dict" where
  "draft ttl = \<lparr>d_title = Some ttl, d_description = Null, d_due_date = None,
     d_priority = Val 1, d_category = None\<rparr>"

definition request :: "string \<Rightarrow> todo_dict list \<Rightarrow> analysis" where
  "request act ds = \<lparr>action = Some act, ui_action = None, todos = ds, todo_info = None,
     filters = no_filters, view_options = no_view, error = None\<rparr>"

section \<open>Evaluation\<close>

lemmas char_class_defs = isspace_def isdigit_def isword_def lower_char_def upper_char_def
  upper_letters_def lower_letters_def

lemmas str_defs = lower_def capitalize_def strip_def split_def split_on_def remove_all_def
  sub_word_def next_isword_def collapse_spaces_def strip_nonword_def match_hours_here_def
  digit_val_def decimal_def int_max_str_digits_def py_int_def py_str.simps

lemmas analyzer_defs = error_analysis_def title_case_def build_todo_def todo_items_def
  action_words_def
  basic_cleanup_def fallback_action_def fallback_title_def fallback_def analyze_input_def
  no_filters_def no_view_def datetime_max_def

lemmas engine_defs = ilike_def find_matching_todo_def get_filtered_todos_def
  get_todos_response_def error_response_def next_id_def todos_to_create_def new_todo_def
  create_todos_def completion_words_def deletion_words_def resolve_title_def set_completed_def
  mark_todo_def delete_todo_def todo_patch_def update_todo_def rename_todo_def
  default_action_def apply_analysis_def process_input_def

lemmas sample_defs = sample_env_def alice_def task_def draft_def request_def
  title_matches_def due_in_range_def

lemmas eval_defs = sample_defs engine_defs analyzer_defs str_defs char_class_defs Let_def

section \<open>The mutation engine\<close>

subsection \<open>Inserted rows\<close>

lemma new_todo_Inr:
  "new_todo e uid k d = Inr row \<Longrightarrow>
     category_id row = None \<and> user_id row = uid \<and> completed row = False \<and> todo_id row = k"
  by (auto simp: new_todo_def Let_def split: option.splits if_splits)

lemma new_todos_Inr:
  "new_todos e uid k ds = Inr rows \<Longrightarrow>
     length rows = length ds \<and>
     list_all (\<lambda>t. category_id t = None \<and> user_id t = uid \<and> completed t = False) rows"
proof (induction ds arbitrary: k rows)
  case Nil
  then show ?case by simp
next
  case (Cons d ds)
  from Cons.prems obtain row rest where
    r: "new_todo e uid k d = Inr row" and rs: "new_todos e uid (Suc k) ds = Inr rest"
    and eq: "rows = row # rest"
    by (auto split: sum.splits)
  from Cons.IH [OF rs] new_todo_Inr [OF r] eq show ?case by simp
qed

lemma create_todos_appends:
  "create_todos e user_input u a db = (r, db') \<Longrightarrow>
     \<exists>rows. db' = db @ rows \<and>
       list_all (\<lambda>t. category_id t = None \<and> user_id t = u_id u \<and> completed t = False) rows"
  unfolding create_todos_def
  by (auto simp: Let_def split: sum.splits dest: new_todos_Inr intro: exI [of _ "[]"])

text \<open>
  C10.  For every \<open>create\<close> analysis, the table after the request is the table before it
  followed by the inserted rows, and every inserted row has no category, whatever
  category the drafts carry; it belongs to the current user and is not completed.
\<close>

theorem create_inserts_null_category:
  assumes "action a = Some ''create''"
    and "apply_analysis e user_input u a db = (r, db')"
  shows "\<exists>rows. db' = db @ rows \<and>
           list_all (\<lambda>t. category_id t = None \<and> user_id t = u_id u \<and> completed t = False) rows"
proof -
  from assms have "create_todos e user_input u a db = (r, db')"
    by (simp add: apply_analysis_def default_action_def)
  then show ?thesis by (rule create_todos_appends)
qed

theorem create_inserts_null_category_witness:
  "action (request ''create'' [(draft ''Buy Milk'')\<lparr>d_category := Some ''shopping''\<rparr>])
     = Some ''create''
   \<and> apply_analysis sample_env ''need to buy milk'' alice
       (request ''create'' [(draft ''Buy Milk'')\<lparr>d_category := Some ''shopping''\<rparr>]) []
     = (Inr \<lparr>resp_todos = [task 1 ''Buy Milk'' 1],
              resp_message = Some ''Created 1 todo successfully'', resp_error = None\<rparr>,
        [task 1 ''Buy Milk'' 1])
   \<and> (\<exists>rows. [task 1 ''Buy Milk'' 1] = [] @ rows \<and>
         list_all (\<lambda>t. category_id t = None \<and> user_id t = u_id alice \<and> completed t = False)
           rows)"
proof -
  let ?a = "request ''create'' [(draft ''Buy Milk'')\<lparr>d_category := Some ''shopping''\<rparr>]"
  have a: "action ?a = Some ''create''"
    by (simp add: sample_defs)
  have ev: "apply_analysis sample_env ''need to buy milk'' alice ?a []
     = (Inr \<lparr>resp_todos = [task 1 ''Buy Milk'' 1],
              resp_message = Some ''Created 1 todo successfully'', resp_error = None\<rparr>,
        [task 1 ''Buy Milk'' 1])"
    by (simp add: sample_defs engine_defs analyzer_defs str_defs Let_def)
  from create_inserts_null_category [OF a ev] a ev show ?thesis by simp
qed

subsection \<open>The matcher finds the only matching row\<close>

lemma find_SomeD: "find P xs = Some x \<Longrightarrow> P x \<and> x \<in> set xs"
  by (induction xs) (auto split: if_splits)

lemma find_NoneD: "find P xs = None \<Longrightarrow> x \<in> set xs \<Longrightarrow> \<not> P x"
  by (induction xs) (auto split: if_splits)

lemma find_matching_todo_sound:
  "find_matching_todo db ttl uid = Some t \<Longrightarrow>
     t \<in> set db \<and> user_id t = uid \<and> title_matches ttl t"
  unfolding find_matching_todo_def title_matches_def
  by (auto simp: Let_def split: option.splits dest!: find_SomeD)

lemma find_matching_todo_complete:
  assumes "x \<in> set db" "user_id x = uid" "title_matches ttl x"
  shows "\<exists>t. find_matching_todo db ttl uid = Some t"
proof (cases "find (\<lambda>t. ilike (title t) (''%'' @ ttl @ ''%'') \<and> user_id t = uid) db")
  case (Some t)
  then show ?thesis by (simp add: find_matching_todo_def)
next
  case None
  from find_NoneD [OF None assms(1)] assms(2,3)
  have tok: "list_ex (\<lambda>word. contains word (lower (title x))) (split (lower ttl))"
    by (simp add: title_matches_def)
  let ?P = "\<lambda>t. list_ex (\<lambda>word. contains word (lower (title t))) (split (lower ttl))"
  let ?rows = "filter (\<lambda>t. user_id t = uid) db"
  have "x \<in> set ?rows" using assms by simp
  with tok have "find ?P ?rows \<noteq> None"
    by (auto simp: find_None_iff)
  with None show ?thesis by (auto simp: find_matching_todo_def Let_def)
qed

lemma find_matching_todo_unique:
  assumes "x \<in> set db" "user_id x = uid" "title_matches ttl x"
    and "\<forall>y\<in>set db. user_id y = uid \<and> title_matches ttl y \<longrightarrow> y = x"
  shows "find_matching_todo db ttl uid = Some x"
proof -
  from find_matching_todo_complete [OF assms(1-3)]
  obtain t where t: "find_matching_todo db ttl uid = Some t" by blast
  from find_matching_todo_sound [OF t] assms(4) have "t = x" by blast
  with t show ?thesis by simp
qed

lemma set_completed_nth:
  assumes "distinct (map todo_id db)" "x \<in> set db" "i < length db"
  shows "set_completed b x db ! i = (if db ! i = x then x\<lparr>completed := b\<rparr> else db ! i)"
proof -
  have "inj_on todo_id (set db)" using assms(1) by (simp add: distinct_map)
  with assms(2,3) have "todo_id (db ! i) = todo_id x \<longleftrightarrow> db ! i = x"
    by (auto dest: inj_onD)
  with assms(3) show ?thesis by (auto simp: set_completed_def)
qed

text \<open>
  C9.  Let a \<open>mark_complete\<close> analysis resolve to a title that exactly one row of the
  current user matches, in a table whose keys are distinct.  Then the request succeeds,
  the table keeps its length and its order, the matching row is the same row with
  \<open>completed\<close> set, and every other row is unchanged in all its fields.
\<close>

theorem mark_complete_frame:
  assumes act: "action a = Some ''mark_complete''"
    and ttl: "resolve_title completion_words user_input a = Inr ttl"
    and x: "x \<in> set db" "user_id x = u_id u" "title_matches ttl x"
    and uniq: "\<forall>y\<in>set db. user_id y = u_id u \<and> title_matches ttl y \<longrightarrow> y = x"
    and ids: "distinct (map todo_id db)"
  shows "\<exists>r db'. apply_analysis e user_input u a db = (Inr r, db')
           \<and> length db' = length db
           \<and> (\<forall>i<length db. db' ! i = (if db ! i = x then x\<lparr>completed := True\<rparr> else db ! i))"
proof -
  have f: "find_matching_todo db ttl (u_id u) = Some x"
    using x uniq by (rule find_matching_todo_unique)
  have "snd (apply_analysis e user_input u a db) = set_completed True x db"
    and "\<exists>r. fst (apply_analysis e user_input u a db) = Inr r"
    using act ttl f by (simp_all add: apply_analysis_def default_action_def mark_todo_def Let_def)
  moreover have "length (set_completed True x db) = length db"
    by (simp add: set_completed_def)
  ultimately show ?thesis
    using set_completed_nth [OF ids x(1)] by (cases "apply_analysis e user_input u a db") auto
qed

theorem mark_complete_frame_witness:
  "apply_analysis sample_env ''mark buy milk as done'' alice
       (request ''mark_complete'' [draft ''Buy Milk''])
       [task 1 ''Buy Milk'' 1, task 2 ''Call Mom'' 1, task 3 ''Buy Milk'' 2]
     = (Inr \<lparr>resp_todos = [(task 1 ''Buy Milk'' 1)\<lparr>completed := True\<rparr>, task 2 ''Call Mom'' 1],
              resp_message = Some ''Todo marked as complete'', resp_error = None\<rparr>,
        [(task 1 ''Buy Milk'' 1)\<lparr>completed := True\<rparr>, task 2 ''Call Mom'' 1,
         task 3 ''Buy Milk'' 2])
   \<and> (\<exists>r db'. apply_analysis sample_env ''mark buy milk as done'' alice
           (request ''mark_complete'' [draft ''Buy Milk''])
           [task 1 ''Buy Milk'' 1, task 2 ''Call Mom'' 1, task 3 ''Buy Milk'' 2] = (Inr r, db')
         \<and> length db' = 3
         \<and> (\<forall>i<3. db' ! i =
               (if [task 1 ''Buy Milk'' 1, task 2 ''Call Mom'' 1, task 3 ''Buy Milk'' 2] ! i
                     = task 1 ''Buy Milk'' 1
                then (task 1 ''Buy Milk'' 1)\<lparr>completed := True\<rparr>
                else [task 1 ''Buy Milk'' 1, task 2 ''Call Mom'' 1, task 3 ''Buy Milk'' 2] ! i)))"
proof -
  let ?a = "request ''mark_complete'' [draft ''Buy Milk'']"
  let ?db = "[task 1 ''Buy Milk'' 1, task 2 ''Call Mom'' 1, task 3 ''Buy Milk'' 2]"
  have act: "action ?a = Some ''mark_complete''"
    by (simp add: sample_defs)
  have ttl: "resolve_title completion_words ''mark buy milk as done'' ?a = Inr ''Buy Milk''"
    by (simp add: sample_defs resolve_title_def)
  have x: "task 1 ''Buy Milk'' 1 \<in> set ?db" "user_id (task 1 ''Buy Milk'' 1) = u_id alice"
    "title_matches ''Buy Milk'' (task 1 ''Buy Milk'' 1)"
    by (simp_all add: sample_defs engine_defs str_defs char_class_defs)
  have uniq: "\<forall>y\<in>set ?db. user_id y = u_id alice \<and> title_matches ''Buy Milk'' y
                \<longrightarrow> y = task 1 ''Buy Milk'' 1"
    by (simp add: sample_defs engine_defs str_defs char_class_defs)
  have ids: "distinct (map todo_id ?db)"
    by (simp add: sample_defs)
  have len: "length ?db = 3"
    by simp
  have ev: "apply_analysis sample_env ''mark buy milk as done'' alice ?a ?db
     = (Inr \<lparr>resp_todos = [(task 1 ''Buy Milk'' 1)\<lparr>completed := True\<rparr>, task 2 ''Call Mom'' 1],
              resp_message = Some ''Todo marked as complete'', resp_error = None\<rparr>,
        [(task 1 ''Buy Milk'' 1)\<lparr>completed := True\<rparr>, task 2 ''Call Mom'' 1,
         task 3 ''Buy Milk'' 2])"
    by (simp add: sample_defs engine_defs str_defs char_class_defs no_filters_def no_view_def
          Let_def)
  from mark_complete_frame [OF act ttl x uniq ids, of sample_env] ev show ?thesis
    unfolding len by blast
qed

subsection \<open>The first \<open>update\<close> branch\<close>

text \<open>
  C1.  An \<open>update\<close> that names, in \<open>todo_info\<close>, a title that only a task of user 2
  holds is sent by user 1, who is no administrator: the task of user 2 gets the new
  description.
\<close>

theorem update_patches_foreign_task:
  "process_input sample_env ''update pay rent''
     (Oracle_JSON ((request ''update'' [])
        \<lparr>todo_info := Some ((draft ''Pay Rent'')\<lparr>d_description := Val ''changed''\<rparr>)\<rparr>))
     alice [task 7 ''Pay Rent'' 2]
   = (Inr \<lparr>resp_todos = [], resp_message = Some ''Todo updated successfully'',
            resp_error = None\<rparr>,
      [(task 7 ''Pay Rent'' 2)\<lparr>description := Some ''changed''\<rparr>])"
  by (simp add: eval_defs)

text \<open>
  C2.  A rename of \<open>Meeting\<close> to \<open>Presentation\<close>, two titles of the same owner, and a
  rename with one draft only: both end in the \<open>KeyError\<close> of the first \<open>update\<close>
  branch, which reads \<open>analysis["todo_info"]\<close>, and the table is unchanged.
\<close>

theorem rename_conflict_not_reported:
  "process_input sample_env ''rename meeting to presentation''
     (Oracle_JSON (request ''update'' [draft ''Meeting'', draft ''Presentation'']))
     alice [task 1 ''Meeting'' 1, task 2 ''Presentation'' 1]
   = (Inl (Uncaught KeyError), [task 1 ''Meeting'' 1, task 2 ''Presentation'' 1])
   \<and> process_input sample_env ''rename meeting''
     (Oracle_JSON (request ''update'' [draft ''Meeting'']))
     alice [task 1 ''Meeting'' 1, task 2 ''Presentation'' 1]
   = (Inl (Uncaught KeyError), [task 1 ''Meeting'' 1, task 2 ''Presentation'' 1])"
  by (simp add: eval_defs)

text \<open>The second branch, were it reached, would answer as the specification says.\<close>

lemma rename_branch_reports_conflict:
  "rename_todo alice (request ''update'' [draft ''Meeting'', draft ''Presentation''])
     [task 1 ''Meeting'' 1, task 2 ''Presentation'' 1]
   = (Inl (HTTPException 400 ''A todo with this title already exists''),
      [task 1 ''Meeting'' 1, task 2 ''Presentation'' 1])
   \<and> rename_todo alice (request ''update'' [draft ''Meeting''])
     [task 1 ''Meeting'' 1, task 2 ''Presentation'' 1]
   = (Inl (HTTPException 400 ''Missing update information''),
      [task 1 ''Meeting'' 1, task 2 ''Presentation'' 1])"
  by (simp add: eval_defs)

text \<open>
  Every other action leaves the rows of the other users as they are: the rows that
  \<open>create\<close> appends belong to the current user, and \<open>mark_complete\<close>,
  \<open>mark_incomplete\<close> and \<open>delete\<close> change a row that the matcher found among the
  current user's.
\<close>

lemma filter_map_frame:
  assumes "\<And>r. r \<in> set db \<Longrightarrow> P (f r) = P r" and "\<And>r. r \<in> set db \<Longrightarrow> P r \<Longrightarrow> f r = r"
  shows "filter P (map f db) = filter P db"
  using assms by (induction db) auto

lemma same_key_same_row:
  assumes "distinct (map todo_id db)" "t \<in> set db" "r \<in> set db" "todo_id r = todo_id t"
  shows "r = t"
  using assms by (auto simp: distinct_map dest: inj_onD)

lemma mark_todo_owner_scoped:
  assumes "distinct (map todo_id db)" and "mark_todo user_input u a act db = (res, db')"
  shows "filter (\<lambda>t. user_id t \<noteq> u_id u) db' = filter (\<lambda>t. user_id t \<noteq> u_id u) db"
proof (cases "resolve_title completion_words user_input a")
  case (Inl x)
  with assms(2) show ?thesis by (simp add: mark_todo_def)
next
  case (Inr ttl)
  show ?thesis
  proof (cases "find_matching_todo db ttl (u_id u)")
    case None
    with Inr assms(2) show ?thesis by (simp add: mark_todo_def)
  next
    case (Some t)
    from find_matching_todo_sound [OF Some] have t: "t \<in> set db" "user_id t = u_id u" by simp_all
    from Inr Some assms(2) have db': "db' = set_completed (act = ''mark_complete'') t db"
      by (auto simp: mark_todo_def Let_def)
    show ?thesis
      unfolding db' set_completed_def
      by (rule filter_map_frame) (auto dest: same_key_same_row [OF assms(1) t(1)] simp: t(2))
  qed
qed

lemma delete_todo_owner_scoped:
  assumes "distinct (map todo_id db)" and "delete_todo user_input u a db = (res, db')"
  shows "filter (\<lambda>t. user_id t \<noteq> u_id u) db' = filter (\<lambda>t. user_id t \<noteq> u_id u) db"
proof (cases "resolve_title deletion_words user_input a")
  case (Inl x)
  with assms(2) show ?thesis by (simp add: delete_todo_def)
next
  case (Inr ttl)
  show ?thesis
  proof (cases "find_matching_todo db ttl (u_id u)")
    case None
    with Inr assms(2) show ?thesis by (simp add: delete_todo_def)
  next
    case (Some t)
    from find_matching_todo_sound [OF Some] have t: "t \<in> set db" "user_id t = u_id u" by simp_all
    from Inr Some assms(2) have db': "db' = filter (\<lambda>r. todo_id r \<noteq> todo_id t) db"
      by (auto simp: delete_todo_def Let_def)
    have "\<And>r. r \<in> set db \<Longrightarrow> user_id r \<noteq> u_id u \<Longrightarrow> todo_id r \<noteq> todo_id t"
      using same_key_same_row [OF assms(1) t(1)] t(2) by blast
    then show ?thesis
      unfolding db' by (auto simp: filter_filter intro!: filter_cong)
  qed
qed

lemma create_todos_owner_scoped:
  assumes "create_todos e user_input u a db = (res, db')"
  shows "filter (\<lambda>t. user_id t \<noteq> u_id u) db' = filter (\<lambda>t. user_id t \<noteq> u_id u) db"
proof -
  from create_todos_appends [OF assms] obtain rows where
    "db' = db @ rows" "list_all (\<lambda>t. category_id t = None \<and> user_id t = u_id u \<and> completed t = False) rows"
    by blast
  then show ?thesis by (auto simp: list_all_iff filter_empty_conv)
qed

lemma other_mutations_owner_scoped:
  assumes "distinct (map todo_id db)" and "action a \<noteq> Some ''update''"
    and "apply_analysis e user_input u a db = (res, db')"
  shows "filter (\<lambda>t. user_id t \<noteq> u_id u) db' = filter (\<lambda>t. user_id t \<noteq> u_id u) db"
proof -
  let ?a = "default_action user_input a"
  have upd: "action ?a \<noteq> Some ''update''"
    using assms(2) by (auto simp: default_action_def split: option.splits)
  consider (err) "action a = Some ''error''"
    | (create) "action a \<noteq> Some ''error''" "action ?a = Some ''create''"
    | (mark) act where "action a \<noteq> Some ''error''" "action ?a = Some act"
        "act = ''mark_complete'' \<or> act = ''mark_incomplete''"
    | (delete) "action a \<noteq> Some ''error''" "action ?a = Some ''delete''"
    | (other) "action a \<noteq> Some ''error''" "action ?a \<noteq> Some ''create''"
        "action ?a \<noteq> Some ''mark_complete''" "action ?a \<noteq> Some ''mark_incomplete''"
        "action ?a \<noteq> Some ''delete''"
    by (cases "action ?a") auto
  then show ?thesis
  proof cases
    case err
    with assms(3) show ?thesis by (simp add: apply_analysis_def)
  next
    case create
    with assms(3) have "create_todos e user_input u ?a db = (res, db')"
      by (simp add: apply_analysis_def Let_def)
    then show ?thesis by (rule create_todos_owner_scoped)
  next
    case mark
    with assms(3) have "mark_todo user_input u ?a act db = (res, db')"
      by (auto simp: apply_analysis_def Let_def)
    with assms(1) show ?thesis by (rule mark_todo_owner_scoped)
  next
    case delete
    with assms(3) have "delete_todo user_input u ?a db = (res, db')"
      by (simp add: apply_analysis_def Let_def)
    with assms(1) show ?thesis by (rule delete_todo_owner_scoped)
  next
    case other
    with assms(3) upd have "db' = db"
      by (cases "action ?a") (auto simp: apply_analysis_def Let_def split: if_splits)
    then show ?thesis by simp
  qed
qed

subsection \<open>Queries\<close>

lemma get_filtered_todos_ignores:
  "get_filtered_todos db flt view u = get_filtered_todos db no_filters no_view u"
  by (simp add: get_filtered_todos_def)

text \<open>
  C3.  A query for the completed tasks, over a table with one open and one completed
  task of the owner, answers with both.
\<close>

theorem query_ignores_filters:
  "process_input sample_env ''show completed tasks''
     (Oracle_JSON ((request ''query'' [])\<lparr>filters := no_filters\<lparr>f_completed := Some True\<rparr>\<rparr>))
     alice [task 1 ''Buy Milk'' 1, (task 2 ''Call Mom'' 1)\<lparr>completed := True\<rparr>]
   = (Inr \<lparr>resp_todos = [task 1 ''Buy Milk'' 1, (task 2 ''Call Mom'' 1)\<lparr>completed := True\<rparr>],
            resp_message = None, resp_error = None\<rparr>,
      [task 1 ''Buy Milk'' 1, (task 2 ''Call Mom'' 1)\<lparr>completed := True\<rparr>])"
  by (simp add: eval_defs)

section \<open>The intent extractor\<close>

subsection \<open>A failing oracle\<close>

text \<open>
  C4, as the code has it.  When the call to the oracle raises, the analysis is the error
  analysis with a fixed message; the fallback is not run.  The endpoint answers with that
  message and an empty list, raises nothing and leaves the table as it is.
\<close>

theorem oracle_failure_error_analysis:
  "analyze_input e user_input Oracle_Raises
     = error_analysis ''An error occurred while processing your request. Please try again.''
   \<and> process_input e user_input Oracle_Raises u db
     = (Inr (error_response ''An error occurred while processing your request. Please try again.''),
        db)"
  by (simp add: analyze_input_def process_input_def apply_analysis_def error_analysis_def)

theorem oracle_failure_counterexample:
  "action (analyze_input sample_env ''buy milk'' Oracle_Raises) = Some ''error''
   \<and> todos (analyze_input sample_env ''buy milk'' Oracle_Raises) = []
   \<and> fallback ''buy milk'' = (request ''create'' [draft ''Buy milk''])\<lparr>ui_action := Some ''add_item''\<rparr>
   \<and> analyze_input sample_env ''buy milk'' Oracle_Raises \<noteq> fallback ''buy milk''"
  by (simp add: eval_defs)

subsection \<open>Text that is not JSON\<close>

lemma contains_iff_sublist: "contains sub s \<longleftrightarrow> sublist sub s"
  by (induction s) (simp_all add: sublist_Cons_right)

text \<open>
  C5, as the code has it.  When the text of the oracle is not JSON, the analysis is
  computed from the input alone.  If nothing is left of the input once the action words
  are deleted, it is the error analysis.  Otherwise it has one draft, whose title is the
  capitalized remainder; the action is \<open>delete\<close> if the input, in lower case, contains
  \<open>delete\<close>, \<open>remove\<close> or \<open>cancel\<close>, else \<open>mark_complete\<close> if it contains \<open>done\<close>,
  \<open>complete\<close> or \<open>finished\<close>, else \<open>create\<close>.
\<close>

theorem invalid_json_fallback:
  "analyze_input e user_input Oracle_Invalid_JSON =
     (if fallback_title user_input = []
      then error_analysis ''Failed to understand the request. Please try again.''
      else \<lparr>action = Some (fallback_action user_input),
            ui_action = Some (if fallback_action user_input = ''create'' then ''add_item''
                              else ''update_item''),
            todos = [\<lparr>d_title = Some (fallback_title user_input), d_description = Null,
                      d_due_date = None, d_priority = Val 1, d_category = None\<rparr>],
            todo_info = None, filters = no_filters, view_options = no_view, error = None\<rparr>)
   \<and> fallback_action user_input =
     (if sublist ''delete'' (lower user_input) \<or> sublist ''remove'' (lower user_input)
         \<or> sublist ''cancel'' (lower user_input) then ''delete''
      else if sublist ''done'' (lower user_input) \<or> sublist ''complete'' (lower user_input)
         \<or> sublist ''finished'' (lower user_input) then ''mark_complete''
      else ''create'')"
  by (simp add: analyze_input_def fallback_def fallback_action_def Let_def contains_iff_sublist)

theorem fallback_counterexample:
  "analyze_input sample_env ''add task'' Oracle_Invalid_JSON
     = error_analysis ''Failed to understand the request. Please try again.''
   \<and> action (analyze_input sample_env ''add task'' Oracle_Invalid_JSON) = Some ''error''
   \<and> fallback_action ''add task'' = ''create''"
  by (simp add: eval_defs)

subsection \<open>The drafts of a \<open>create\<close>\<close>


















section \<open>The task matcher\<close>

text \<open>
  C8.  The owner has the one task \<open>Pay 50 Dollars\<close>.  Looking for \<open>50%\<close> finds it,
  although the title does not contain \<open>50%\<close>, nor any word of it: the percent sign of
  the reference is read as a wildcard of the pattern.
\<close>

theorem wildcard_matches_without_substring:
  "find_matching_todo [task 1 ''Pay 50 Dollars'' 1] ''50%'' 1 = Some (task 1 ''Pay 50 Dollars'' 1)
   \<and> \<not> contains (lower ''50%'') (lower ''Pay 50 Dollars'')
   \<and> \<not> list_ex (\<lambda>word. contains word (lower ''Pay 50 Dollars'')) (split (lower ''50%''))"
  by (simp add: eval_defs)

text \<open>The two examples of the specification.\<close>

lemma matcher_examples:
  "find_matching_todo [task 1 ''Buy Groceries From Walmart'' 1] ''groceries'' 1
     = Some (task 1 ''Buy Groceries From Walmart'' 1)
   \<and> find_matching_todo [task 1 ''Buy Groceries From Walmart'' 1] ''nonexistent'' 1 = None"
  by (simp add: eval_defs)

text \<open>
  For a reference without \<open>%\<close> and \<open>_\<close> the first test of the matcher is the substring
  test on the lower-case texts, and the matcher is the two-stage search of the
  specification.
\<close>

lemma like_percent [simp]: "like ''%'' s"
  by (induction s) simp_all

lemma like_literal:
  "CHR ''%'' \<notin> set p \<Longrightarrow> CHR ''_'' \<notin> set p \<Longrightarrow> like (p @ ''%'') s \<longleftrightarrow> prefix p s"
proof (induction p arbitrary: s)
  case Nil
  then show ?case by simp
next
  case (Cons a p)
  then show ?case by (cases s) auto
qed

lemma like_percent_Cons: "like (CHR ''%'' # q) s \<longleftrightarrow> (\<exists>t. suffix t s \<and> like q t)"
  by (induction s) (auto simp: suffix_Cons)

lemma like_contains:
  assumes "CHR ''%'' \<notin> set p" "CHR ''_'' \<notin> set p"
  shows "like (''%'' @ p @ ''%'') s \<longleftrightarrow> sublist p s"
  using like_percent_Cons [of "p @ ''%''" s] like_literal [OF assms]
  by (auto simp: sublist_altdef')

lemma lower_char_wildcard:
  "lower_char c = CHR ''%'' \<longleftrightarrow> c = CHR ''%''" "lower_char c = CHR ''_'' \<longleftrightarrow> c = CHR ''_''"
  by (auto simp: lower_char_def upper_letters_def lower_letters_def split: if_splits)

lemma lower_wildcard:
  "CHR ''%'' \<in> set (lower s) \<longleftrightarrow> CHR ''%'' \<in> set s"
  "CHR ''_'' \<in> set (lower s) \<longleftrightarrow> CHR ''_'' \<in> set s"
proof -
  have "\<And>c. CHR ''%'' = lower_char c \<longleftrightarrow> c = CHR ''%''"
    and "\<And>c. CHR ''_'' = lower_char c \<longleftrightarrow> c = CHR ''_''"
    using lower_char_wildcard by (metis, metis)
  then show "CHR ''%'' \<in> set (lower s) \<longleftrightarrow> CHR ''%'' \<in> set s"
    and "CHR ''_'' \<in> set (lower s) \<longleftrightarrow> CHR ''_'' \<in> set s"
    by (induction s) (auto simp: lower_def)
qed

lemma lower_percent: "lower ''%'' = ''%''"
  by (simp add: lower_def lower_char_def upper_letters_def lower_letters_def)

lemma ilike_substring:
  assumes "CHR ''%'' \<notin> set ttl" "CHR ''_'' \<notin> set ttl"
  shows "ilike s (CHR ''%'' # ttl @ ''%'') \<longleftrightarrow> sublist (lower ttl) (lower s)"
proof -
  have "lower (CHR ''%'' # ttl @ ''%'') = ''%'' @ lower ttl @ ''%''"
    using lower_percent by (simp add: lower_def)
  moreover have "CHR ''%'' \<notin> set (lower ttl)" "CHR ''_'' \<notin> set (lower ttl)"
    using assms by (simp_all add: lower_wildcard)
  ultimately show ?thesis
    using like_contains [of "lower ttl" "lower s"] by (simp add: ilike_def)
qed

lemma find_matching_todo_literal:
  assumes "CHR ''%'' \<notin> set ttl" "CHR ''_'' \<notin> set ttl"
  shows "find_matching_todo db ttl uid =
     (case find (\<lambda>t. sublist (lower ttl) (lower (title t)) \<and> user_id t = uid) db of
        Some t \<Rightarrow> Some t
      | None \<Rightarrow>
          find (\<lambda>t. list_ex (\<lambda>word. sublist word (lower (title t))) (split (lower ttl)))
            (filter (\<lambda>t. user_id t = uid) db))"
  by (simp add: find_matching_todo_def ilike_substring [OF assms] contains_iff_sublist Let_def
        cong: option.case_cong)

end
